theory Spec2Isabelle
  imports Complex_Main
begin

section \<open>Floating-point values\<close>

text \<open>
  The metrics are computed on 64-bit floats. A value is modelled as a real number or one
  of the three special values of IEEE arithmetic. Arithmetic on the finite values is exact
  (rounding and overflow are left out, and zero carries no sign: a zero divisor counts as
  \<open>+0\<close>); the special values follow IEEE 754, which numpy and pandas use: a division by
  zero does not raise, it gives an infinity or \<open>NaN\<close>.
\<close>

datatype f64 = Fin real | PInf | NInf | NaN

instantiation f64 :: "{plus, minus, times, inverse}"
begin

fun plus_f64 :: "f64 \<Rightarrow> f64 \<Rightarrow> f64" where
  "plus_f64 (Fin a) (Fin b) = Fin (a + b)"
| "plus_f64 (Fin a) PInf = PInf"
| "plus_f64 (Fin a) NInf = NInf"
| "plus_f64 PInf (Fin b) = PInf"
| "plus_f64 PInf PInf = PInf"
| "plus_f64 PInf NInf = NaN"
| "plus_f64 NInf (Fin b) = NInf"
| "plus_f64 NInf PInf = NaN"
| "plus_f64 NInf NInf = NInf"
| "plus_f64 NaN y = NaN"
| "plus_f64 x NaN = NaN"

fun minus_f64 :: "f64 \<Rightarrow> f64 \<Rightarrow> f64" where
  "minus_f64 (Fin a) (Fin b) = Fin (a - b)"
| "minus_f64 (Fin a) PInf = NInf"
| "minus_f64 (Fin a) NInf = PInf"
| "minus_f64 PInf (Fin b) = PInf"
| "minus_f64 PInf PInf = NaN"
| "minus_f64 PInf NInf = PInf"
| "minus_f64 NInf (Fin b) = NInf"
| "minus_f64 NInf PInf = NInf"
| "minus_f64 NInf NInf = NaN"
| "minus_f64 NaN y = NaN"
| "minus_f64 x NaN = NaN"

fun times_f64 :: "f64 \<Rightarrow> f64 \<Rightarrow> f64" where
  "times_f64 (Fin a) (Fin b) = Fin (a * b)"
| "times_f64 (Fin a) PInf = (if a = 0 then NaN else if 0 < a then PInf else NInf)"
| "times_f64 (Fin a) NInf = (if a = 0 then NaN else if 0 < a then NInf else PInf)"
| "times_f64 PInf (Fin b) = (if b = 0 then NaN else if 0 < b then PInf else NInf)"
| "times_f64 PInf PInf = PInf"
| "times_f64 PInf NInf = NInf"
| "times_f64 NInf (Fin b) = (if b = 0 then NaN else if 0 < b then NInf else PInf)"
| "times_f64 NInf PInf = NInf"
| "times_f64 NInf NInf = PInf"
| "times_f64 NaN y = NaN"
| "times_f64 x NaN = NaN"

fun divide_f64 :: "f64 \<Rightarrow> f64 \<Rightarrow> f64" where
  "divide_f64 (Fin a) (Fin b) =
     (if b = 0 then (if a = 0 then NaN else if 0 < a then PInf else NInf) else Fin (a / b))"
| "divide_f64 (Fin a) PInf = Fin 0"
| "divide_f64 (Fin a) NInf = Fin 0"
| "divide_f64 PInf (Fin b) = (if 0 \<le> b then PInf else NInf)"
| "divide_f64 PInf PInf = NaN"
| "divide_f64 PInf NInf = NaN"
| "divide_f64 NInf (Fin b) = (if 0 \<le> b then NInf else PInf)"
| "divide_f64 NInf PInf = NaN"
| "divide_f64 NInf NInf = NaN"
| "divide_f64 NaN y = NaN"
| "divide_f64 x NaN = NaN"

fun inverse_f64 :: "f64 \<Rightarrow> f64" where
  "inverse_f64 (Fin a) = (if a = 0 then PInf else Fin (1 / a))"
| "inverse_f64 PInf = Fin 0"
| "inverse_f64 NInf = Fin 0"
| "inverse_f64 NaN = NaN"

instance ..

end

text \<open>\<open>np.sqrt\<close>: the square root of a negative number is \<open>NaN\<close>.\<close>

fun fsqrt :: "f64 \<Rightarrow> f64" where
  "fsqrt (Fin a) = (if a < 0 then NaN else Fin (sqrt a))"
| "fsqrt PInf = PInf"
| "fsqrt NInf = NaN"
| "fsqrt NaN = NaN"

text \<open>The comparisons \<open><\<close> and \<open>\<le>\<close> of floats: every comparison with \<open>NaN\<close> is false.\<close>

fun flt :: "f64 \<Rightarrow> f64 \<Rightarrow> bool" where
  "flt (Fin a) (Fin b) = (a < b)"
| "flt (Fin a) PInf = True"
| "flt (Fin a) NInf = False"
| "flt PInf y = False"
| "flt NInf (Fin b) = True"
| "flt NInf PInf = True"
| "flt NInf NInf = False"
| "flt NaN y = False"
| "flt x NaN = False"

definition fle :: "f64 \<Rightarrow> f64 \<Rightarrow> bool" where
  "fle x y = (x \<noteq> NaN \<and> y \<noteq> NaN \<and> \<not> flt y x)"

text \<open>\<open>np.maximum\<close> and \<open>np.minimum\<close> propagate \<open>NaN\<close>.\<close>

definition np_maximum :: "f64 \<Rightarrow> f64 \<Rightarrow> f64" where
  "np_maximum x y = (if x = NaN \<or> y = NaN then NaN else if flt x y then y else x)"

definition np_minimum :: "f64 \<Rightarrow> f64 \<Rightarrow> f64" where
  "np_minimum x y = (if x = NaN \<or> y = NaN then NaN else if flt y x then y else x)"


text \<open>Sum of an array; the empty sum is 0.\<close>

primrec fsum :: "f64 list \<Rightarrow> f64" where
  "fsum [] = Fin 0"
| "fsum (x # xs) = x + fsum xs"


section \<open>Series and tables\<close>

text \<open>
  A pandas \<open>Series\<close> is a sequence of floats labelled by an index (here: dates); a
  \<open>DataFrame\<close> maps column names to series. A missing value is \<open>NaN\<close>.
\<close>

type_synonym date = int
type_synonym series = "(date \<times> f64) list"
type_synonym dataframe = "string \<rightharpoonup> series"

datatype error = ValueError | KeyError

definition index_of :: "series \<Rightarrow> date list" where
  "index_of s = map fst s"

definition values_of :: "series \<Rightarrow> f64 list" where
  "values_of s = map snd s"

definition map_values :: "(f64 \<Rightarrow> f64) \<Rightarrow> series \<Rightarrow> series" where
  "map_values f s = map (\<lambda>(d, x). (d, f x)) s"

text \<open>\<open>df[name]\<close> raises \<open>KeyError\<close> when the table has no such column.\<close>

definition getitem :: "dataframe \<Rightarrow> string \<Rightarrow> error + series" where
  "getitem df name = (case df name of None \<Rightarrow> Inl KeyError | Some col \<Rightarrow> Inr col)"

subsection \<open>\<open>pct_change\<close> and \<open>dropna\<close>\<close>

text \<open>
  \<open>Series.pct_change()\<close> computes \<open>data / data.shift(1) - 1\<close>. Up to pandas 2 its default
  fill method first replaces each missing value by the last value present before it; from
  pandas 3 on nothing is filled. The flag \<open>pad\<close> selects between the two, so that what is
  proved below holds for either.
\<close>

fun ffill_from :: "f64 \<Rightarrow> f64 list \<Rightarrow> f64 list" where
  "ffill_from prev [] = []"
| "ffill_from prev (x # xs) =
     (if x = NaN then prev # ffill_from prev xs else x # ffill_from x xs)"

definition ffill :: "f64 list \<Rightarrow> f64 list" where
  "ffill xs = ffill_from NaN xs"

definition shift :: "f64 list \<Rightarrow> f64 list" where
  "shift xs = (case xs of [] \<Rightarrow> [] | y # ys \<Rightarrow> NaN # butlast xs)"

definition pct_change :: "bool \<Rightarrow> series \<Rightarrow> series" where
  "pct_change pad s =
     (let data = (if pad then ffill (values_of s) else values_of s);
          shifted = shift data
      in zip (index_of s) (map2 (\<lambda>x y. x / y - Fin 1) data shifted))"

definition dropna :: "series \<Rightarrow> series" where
  "dropna s = filter (\<lambda>(d, x). x \<noteq> NaN) s"

subsection \<open>Reductions that skip missing values\<close>

definition notna :: "f64 list \<Rightarrow> f64 list" where
  "notna xs = filter (\<lambda>x. x \<noteq> NaN) xs"

text \<open>\<open>Series.mean()\<close>: the mean of the values present, \<open>NaN\<close> when there is none.\<close>

definition series_mean :: "series \<Rightarrow> f64" where
  "series_mean s =
     (let v = notna (values_of s); count = length v
      in if count = 0 then NaN else fsum v / Fin (real count))"

text \<open>
  \<open>Series.var()\<close> (\<open>ddof = 1\<close>): with at most one value present the count and the divisor
  are \<open>NaN\<close>, and so is the result.
\<close>

definition series_var :: "series \<Rightarrow> f64" where
  "series_var s =
     (let v = notna (values_of s);
          count = (if length v \<le> 1 then NaN else Fin (real (length v)));
          d = (if length v \<le> 1 then NaN else Fin (real (length v) - 1));
          avg = fsum v / count;
          sqr = map (\<lambda>x. (avg - x) * (avg - x)) v
      in fsum sqr / d)"

definition series_std :: "series \<Rightarrow> f64" where
  "series_std s = fsqrt (series_var s)"

text \<open>\<open>Series.min()\<close>: the least value present, \<open>NaN\<close> when there is none.\<close>

definition series_min :: "series \<Rightarrow> f64" where
  "series_min s =
     (case notna (values_of s) of [] \<Rightarrow> NaN | x # xs \<Rightarrow> foldl np_minimum x xs)"

subsection \<open>Cumulative operations\<close>

text \<open>
  \<open>cumprod\<close> and \<open>cummax\<close> replace a missing input by the neutral value (1, respectively
  \<open>-inf\<close>), apply numpy's \<open>accumulate\<close>, and put \<open>NaN\<close> back at the masked positions.
\<close>

fun accumulate_from :: "(f64 \<Rightarrow> f64 \<Rightarrow> f64) \<Rightarrow> f64 \<Rightarrow> f64 list \<Rightarrow> f64 list" where
  "accumulate_from f a [] = []"
| "accumulate_from f a (x # xs) = f a x # accumulate_from f (f a x) xs"

definition accumulate :: "(f64 \<Rightarrow> f64 \<Rightarrow> f64) \<Rightarrow> f64 list \<Rightarrow> f64 list" where
  "accumulate f xs = (case xs of [] \<Rightarrow> [] | x # ys \<Rightarrow> x # accumulate_from f x ys)"

definition na_accum_func :: "(f64 \<Rightarrow> f64 \<Rightarrow> f64) \<Rightarrow> f64 \<Rightarrow> series \<Rightarrow> series" where
  "na_accum_func f mask_a s =
     (let vals = map (\<lambda>x. if x = NaN then mask_a else x) (values_of s);
          result = accumulate f vals
      in zip (index_of s) (map2 (\<lambda>x r. if x = NaN then NaN else r) (values_of s) result))"

definition series_cumprod :: "series \<Rightarrow> series" where
  "series_cumprod s = na_accum_func (\<lambda>x y. x * y) (Fin 1) s"

definition series_cummax :: "series \<Rightarrow> series" where
  "series_cummax s = na_accum_func np_maximum NInf s"

text \<open>
  Arithmetic between two series with the same index works element by element; that is the
  only case the metrics use (one operand is derived from the other).
\<close>

definition series_binop :: "(f64 \<Rightarrow> f64 \<Rightarrow> f64) \<Rightarrow> series \<Rightarrow> series \<Rightarrow> series" where
  "series_binop f s t = zip (index_of s) (map2 f (values_of s) (values_of t))"

subsection \<open>Covariance and correlation\<close>

text \<open>
  \<open>np.cov(m, y)\<close> stacks the two arrays as the rows of a matrix, which raises
  \<open>ValueError\<close> when their lengths differ, and ignores any index. Each entry is the dot
  product of the centred rows multiplied by \<open>1 / fact\<close>, where \<open>fact = n - 1\<close>, set to 0
  when that is not positive.
\<close>

definition np_average :: "f64 list \<Rightarrow> f64" where
  "np_average xs = fsum xs / Fin (real (length xs))"

definition cov_entry :: "f64 list \<Rightarrow> f64 list \<Rightarrow> f64" where
  "cov_entry xs ys =
     (let n = int (length xs);
          fact = (if n - 1 \<le> 0 then 0 else n - 1);
          xc = map (\<lambda>x. x - np_average xs) xs;
          yc = map (\<lambda>y. y - np_average ys) ys
      in fsum (map2 (\<lambda>x y. x * y) xc yc) * (Fin 1 / Fin (real_of_int fact)))"

definition np_cov :: "f64 list \<Rightarrow> f64 list \<Rightarrow> error + f64 list list" where
  "np_cov m y =
     (if length m \<noteq> length y then Inl ValueError
      else Inr [[cov_entry m m, cov_entry m y], [cov_entry y m, cov_entry y y]])"

text \<open>
  \<open>np.corrcoef(x, y)[0, 1]\<close>: the covariance divided by the two standard deviations (the
  square roots of the diagonal), clipped to \<open>[-1, 1]\<close>.
\<close>

definition np_clip :: "f64 \<Rightarrow> f64 \<Rightarrow> f64 \<Rightarrow> f64" where
  "np_clip x lo hi = np_minimum (np_maximum x lo) hi"

definition np_corrcoef01 :: "f64 list \<Rightarrow> f64 list \<Rightarrow> error + f64" where
  "np_corrcoef01 x y =
     (case np_cov x y of Inl e \<Rightarrow> Inl e
      | Inr c \<Rightarrow>
          let stddev0 = fsqrt (c ! 0 ! 0); stddev1 = fsqrt (c ! 1 ! 1)
          in Inr (np_clip (c ! 0 ! 1 / stddev0 / stddev1) (Fin (- 1)) (Fin 1)))"

text \<open>
  \<open>Series.corr(other)\<close> first aligns the two series on their index (inner join: the labels
  both have; no join when the two indexes are equal), then drops every pair with a missing
  value, and returns \<open>NaN\<close> when nothing is left.
\<close>

definition align_inner :: "series \<Rightarrow> series \<Rightarrow> (f64 \<times> f64) list" where
  "align_inner s t =
     (if index_of s = index_of t then zip (values_of s) (values_of t)
      else concat (map (\<lambda>(d, x). map (\<lambda>(d', y). (x, y)) (filter (\<lambda>(d', y). d' = d) t)) s))"

definition series_corr :: "series \<Rightarrow> series \<Rightarrow> error + f64" where
  "series_corr s other =
     (let both = align_inner s other in
      if length both = 0 then Inr NaN
      else
        let valid = filter (\<lambda>(a, b). a \<noteq> NaN \<and> b \<noteq> NaN) both in
        if length valid < 1 then Inr NaN
        else np_corrcoef01 (map fst valid) (map snd valid))"


section \<open>The data loader\<close>

record DataLoader =
  ticker :: string
  start_date :: string
  end_date :: string

text \<open>\<open>DataLoader.get_returns\<close>: checks for the column itself and raises \<open>ValueError\<close>.\<close>

definition get_returns :: "bool \<Rightarrow> DataLoader \<Rightarrow> dataframe \<Rightarrow> error + series" where
  "get_returns pad self df =
     (if df ''Adj Close'' = None then Inl ValueError
      else case getitem df ''Adj Close'' of
             Inl e \<Rightarrow> Inl e
           | Inr col \<Rightarrow> Inr (dropna (pct_change pad col)))"

section \<open>The metrics calculator\<close>

record MetricsCalculator =
  df :: dataframe

definition calculate_sharpe_ratio :: "bool \<Rightarrow> MetricsCalculator \<Rightarrow> f64 \<Rightarrow> error + f64" where
  "calculate_sharpe_ratio pad self risk_free_rate =
     (case getitem (df self) ''Adj Close'' of
        Inl e \<Rightarrow> Inl e
      | Inr col \<Rightarrow>
          let returns = dropna (pct_change pad col);
              excess_returns = map_values (\<lambda>r. r - risk_free_rate / Fin 252) returns;
              sharpe_ratio =
                Fin (sqrt 252) * series_mean excess_returns / series_std excess_returns
          in Inr sharpe_ratio)"

definition calculate_sortino_ratio :: "bool \<Rightarrow> MetricsCalculator \<Rightarrow> f64 \<Rightarrow> error + f64" where
  "calculate_sortino_ratio pad self risk_free_rate =
     (case getitem (df self) ''Adj Close'' of
        Inl e \<Rightarrow> Inl e
      | Inr col \<Rightarrow>
          let returns = dropna (pct_change pad col);
              excess_returns = map_values (\<lambda>r. r - risk_free_rate / Fin 252) returns;
              downside_returns = filter (\<lambda>(d, x). flt x (Fin 0)) excess_returns;
              sortino_ratio =
                Fin (sqrt 252) * series_mean excess_returns / series_std downside_returns
          in Inr sortino_ratio)"

definition calculate_max_drawdown :: "bool \<Rightarrow> MetricsCalculator \<Rightarrow> error + f64" where
  "calculate_max_drawdown pad self =
     (case getitem (df self) ''Adj Close'' of
        Inl e \<Rightarrow> Inl e
      | Inr col \<Rightarrow>
          let cumulative_returns =
                series_cumprod (map_values (\<lambda>r. Fin 1 + r) (dropna (pct_change pad col)));
              peak = series_cummax cumulative_returns;
              drawdown =
                series_binop (\<lambda>x y. x / y)
                  (series_binop (\<lambda>x y. x - y) cumulative_returns peak) peak;
              max_drawdown = series_min drawdown
          in Inr (max_drawdown * Fin 100))"

definition calculate_volatility :: "bool \<Rightarrow> MetricsCalculator \<Rightarrow> error + f64" where
  "calculate_volatility pad self =
     (case getitem (df self) ''Adj Close'' of
        Inl e \<Rightarrow> Inl e
      | Inr col \<Rightarrow>
          let returns = dropna (pct_change pad col);
              volatility = series_std returns * Fin (sqrt 252)
          in Inr (volatility * Fin 100))"

definition calculate_beta :: "bool \<Rightarrow> MetricsCalculator \<Rightarrow> series \<Rightarrow> error + f64" where
  "calculate_beta pad self benchmark_returns =
     (case getitem (df self) ''Adj Close'' of
        Inl e \<Rightarrow> Inl e
      | Inr col \<Rightarrow>
          let stock_returns = dropna (pct_change pad col) in
          case np_cov (values_of stock_returns) (values_of benchmark_returns) of
            Inl e \<Rightarrow> Inl e
          | Inr c \<Rightarrow>
              let covariance = c ! 0 ! 1;
                  benchmark_variance = series_var benchmark_returns;
                  beta = covariance / benchmark_variance
              in Inr beta)"

definition calculate_alpha ::
  "bool \<Rightarrow> MetricsCalculator \<Rightarrow> series \<Rightarrow> f64 \<Rightarrow> error + f64" where
  "calculate_alpha pad self benchmark_returns risk_free_rate =
     (case getitem (df self) ''Adj Close'' of
        Inl e \<Rightarrow> Inl e
      | Inr col \<Rightarrow>
          let stock_returns = dropna (pct_change pad col);
              excess_stock_returns =
                map_values (\<lambda>r. r - risk_free_rate / Fin 252) stock_returns;
              excess_benchmark_returns =
                map_values (\<lambda>r. r - risk_free_rate / Fin 252) benchmark_returns
          in case calculate_beta pad self benchmark_returns of
               Inl e \<Rightarrow> Inl e
             | Inr beta \<Rightarrow>
                 let alpha =
                       series_mean excess_stock_returns
                         - beta * series_mean excess_benchmark_returns
                 in Inr (alpha * Fin 252))"

definition calculate_correlation :: "bool \<Rightarrow> MetricsCalculator \<Rightarrow> series \<Rightarrow> error + f64" where
  "calculate_correlation pad self benchmark_returns =
     (case getitem (df self) ''Adj Close'' of
        Inl e \<Rightarrow> Inl e
      | Inr col \<Rightarrow>
          let stock_returns = dropna (pct_change pad col)
          in series_corr stock_returns benchmark_returns)"

text \<open>
  \<open>calculate_metrics\<close> builds a dictionary literal: the seven values are computed in the
  order written, the first exception ends the call, and the dictionary keeps the order of
  insertion (an association list).
\<close>

definition calculate_metrics ::
  "bool \<Rightarrow> MetricsCalculator \<Rightarrow> series \<Rightarrow> f64 \<Rightarrow> error + (string \<times> f64) list" where
  "calculate_metrics pad self benchmark_returns risk_free_rate =
     (case calculate_sharpe_ratio pad self risk_free_rate of Inl e \<Rightarrow> Inl e | Inr sharpe \<Rightarrow>
      case calculate_sortino_ratio pad self risk_free_rate of Inl e \<Rightarrow> Inl e | Inr sortino \<Rightarrow>
      case calculate_max_drawdown pad self of Inl e \<Rightarrow> Inl e | Inr drawdown \<Rightarrow>
      case calculate_volatility pad self of Inl e \<Rightarrow> Inl e | Inr volatility \<Rightarrow>
      case calculate_beta pad self benchmark_returns of Inl e \<Rightarrow> Inl e | Inr beta \<Rightarrow>
      case calculate_alpha pad self benchmark_returns risk_free_rate of
        Inl e \<Rightarrow> Inl e | Inr alpha \<Rightarrow>
      case calculate_correlation pad self benchmark_returns of
        Inl e \<Rightarrow> Inl e | Inr correlation \<Rightarrow>
      Inr [(''Sharpe Ratio'', sharpe),
           (''Sortino Ratio'', sortino),
           (''Max Drawdown'', drawdown),
           (''Volatility'', volatility),
           (''Beta'', beta),
           (''Alpha'', alpha),
           (''Correlation'', correlation)])"


section \<open>The Pearson coefficient of the specification\<close>


section \<open>Facts about the special values\<close>

lemma plus_NaN [simp]: "x + NaN = NaN"
  by (cases x) simp_all

lemma minus_NaN [simp]: "x - NaN = NaN"
  by (cases x) simp_all

lemma times_NaN [simp]: "x * NaN = NaN"
  by (cases x) simp_all

lemma divide_NaN [simp]: "x / NaN = NaN"
  by (cases x) simp_all

lemma minus_Fin_eq_NaN [simp]: "(x - Fin a = NaN) = (x = NaN)"
  by (cases x) simp_all

lemma Fin_plus_eq_NaN [simp]: "(Fin a + x = NaN) = (x = NaN)"
  by (cases x) simp_all

section \<open>A table without the adjusted-close column\<close>

text \<open>
  Claim C2. When the table has no \<open>Adj Close\<close> column every entry point fails before it
  computes anything: \<open>get_returns\<close> by its own check (\<open>ValueError\<close>), each of the seven
  metrics and the aggregate call at the column access (\<open>KeyError\<close>). No value is returned.
\<close>

theorem missing_column_raises:
  assumes "t ''Adj Close'' = None"
  shows "get_returns pad loader t = Inl ValueError
       \<and> calculate_sharpe_ratio pad \<lparr>df = t\<rparr> rf = Inl KeyError
       \<and> calculate_sortino_ratio pad \<lparr>df = t\<rparr> rf = Inl KeyError
       \<and> calculate_max_drawdown pad \<lparr>df = t\<rparr> = Inl KeyError
       \<and> calculate_volatility pad \<lparr>df = t\<rparr> = Inl KeyError
       \<and> calculate_beta pad \<lparr>df = t\<rparr> b = Inl KeyError
       \<and> calculate_alpha pad \<lparr>df = t\<rparr> b rf = Inl KeyError
       \<and> calculate_correlation pad \<lparr>df = t\<rparr> b = Inl KeyError
       \<and> calculate_metrics pad \<lparr>df = t\<rparr> b rf = Inl KeyError"
  using assms
  by (simp add: get_returns_def calculate_sharpe_ratio_def calculate_sortino_ratio_def
      calculate_max_drawdown_def calculate_volatility_def calculate_beta_def
      calculate_alpha_def calculate_correlation_def calculate_metrics_def getitem_def)

theorem missing_column_raises_witness:
  "[''Close'' \<mapsto> [(0, Fin 100), (1, Fin 110)]] ''Adj Close'' = (None :: series option)
   \<and> get_returns True \<lparr>ticker = ''T'', start_date = ''a'', end_date = ''b''\<rparr>
         [''Close'' \<mapsto> [(0, Fin 100), (1, Fin 110)]] = Inl ValueError
   \<and> calculate_sharpe_ratio True \<lparr>df = [''Close'' \<mapsto> [(0, Fin 100), (1, Fin 110)]]\<rparr> (Fin 0)
       = Inl KeyError
   \<and> calculate_beta True \<lparr>df = [''Close'' \<mapsto> [(0, Fin 100), (1, Fin 110)]]\<rparr> [(1, Fin 0)]
       = Inl KeyError
   \<and> calculate_metrics True \<lparr>df = [''Close'' \<mapsto> [(0, Fin 100), (1, Fin 110)]]\<rparr>
         [(1, Fin 0)] (Fin 0) = Inl KeyError"
  using missing_column_raises
    [of "[''Close'' \<mapsto> [(0, Fin 100), (1, Fin 110)]]" True
        "\<lparr>ticker = ''T'', start_date = ''a'', end_date = ''b''\<rparr>" "Fin 0" "[(1, Fin 0)]"]
  by simp

section \<open>A table with fewer than two rows\<close>

lemma short_returns_empty:
  assumes "length col < 2"
  shows "dropna (pct_change pad col) = []"
proof (cases col)
  case Nil
  then show ?thesis
    by (simp add: dropna_def pct_change_def values_of_def index_of_def shift_def ffill_def)
next
  case (Cons p ps)
  with assms have "ps = []" by simp
  with Cons show ?thesis
    by (cases p)
      (simp add: dropna_def pct_change_def values_of_def index_of_def shift_def ffill_def)
qed

text \<open>
  Claim C10. A price table that has the column but fewer than two rows has no return at
  all; the Sharpe ratio, the volatility and the maximum drawdown then do not fail: each
  returns \<open>NaN\<close>.
\<close>

theorem short_table_gives_nan:
  assumes "df self ''Adj Close'' = Some col" and "length col < 2"
  shows "calculate_sharpe_ratio pad self rf = Inr NaN
       \<and> calculate_volatility pad self = Inr NaN
       \<and> calculate_max_drawdown pad self = Inr NaN"
  using assms(1) short_returns_empty [OF assms(2)]
  by (simp add: calculate_sharpe_ratio_def calculate_volatility_def calculate_max_drawdown_def
      getitem_def map_values_def series_mean_def series_std_def series_var_def notna_def
      values_of_def index_of_def series_min_def series_cumprod_def series_cummax_def
      na_accum_func_def accumulate_def series_binop_def)

theorem short_table_gives_nan_witness:
  "df \<lparr>df = [''Adj Close'' \<mapsto> [(0, Fin 100)]]\<rparr> ''Adj Close'' = Some [(0, Fin 100)]
   \<and> length [(0::date, Fin 100)] < 2
   \<and> calculate_sharpe_ratio True \<lparr>df = [''Adj Close'' \<mapsto> [(0, Fin 100)]]\<rparr> (Fin (1 / 100))
       = Inr NaN
   \<and> calculate_volatility True \<lparr>df = [''Adj Close'' \<mapsto> [(0, Fin 100)]]\<rparr> = Inr NaN
   \<and> calculate_max_drawdown True \<lparr>df = [''Adj Close'' \<mapsto> [(0, Fin 100)]]\<rparr> = Inr NaN"
  using short_table_gives_nan
    [of "\<lparr>df = [''Adj Close'' \<mapsto> [(0, Fin 100)]]\<rparr>" "[(0, Fin 100)]" True "Fin (1 / 100)"]
  by simp

section \<open>Which calls return and which raise\<close>

lemmas metric_defs =
  calculate_metrics_def calculate_sharpe_ratio_def calculate_sortino_ratio_def
  calculate_max_drawdown_def calculate_volatility_def calculate_beta_def calculate_alpha_def
  calculate_correlation_def getitem_def
lemmas pandas_defs =
  dropna_def pct_change_def values_of_def index_of_def shift_def ffill_def map_values_def
  series_mean_def series_std_def series_var_def series_min_def notna_def
  series_cumprod_def series_cummax_def na_accum_func_def accumulate_def series_binop_def
  np_cov_def cov_entry_def np_average_def np_corrcoef01_def np_clip_def np_maximum_def
  np_minimum_def series_corr_def align_inner_def

lemma np_cov_eq_length:
  "length m = length y \<Longrightarrow>
     np_cov m y = Inr [[cov_entry m m, cov_entry m y], [cov_entry y m, cov_entry y y]]"
  by (simp add: np_cov_def)

lemma np_cov_neq_length: "length m \<noteq> length y \<Longrightarrow> np_cov m y = Inl ValueError"
  by (simp add: np_cov_def)

lemma series_corr_returns: "\<exists>v. series_corr s t = Inr v"
  by (simp add: series_corr_def np_corrcoef01_def np_cov_def Let_def)

lemma sharpe_returns:
  "df self ''Adj Close'' = Some col \<Longrightarrow> \<exists>v. calculate_sharpe_ratio pad self rf = Inr v"
  by (simp add: calculate_sharpe_ratio_def getitem_def Let_def)

lemma sortino_returns:
  "df self ''Adj Close'' = Some col \<Longrightarrow> \<exists>v. calculate_sortino_ratio pad self rf = Inr v"
  by (simp add: calculate_sortino_ratio_def getitem_def Let_def)

lemma max_drawdown_returns:
  "df self ''Adj Close'' = Some col \<Longrightarrow> \<exists>v. calculate_max_drawdown pad self = Inr v"
  by (simp add: calculate_max_drawdown_def getitem_def Let_def)

lemma volatility_returns:
  "df self ''Adj Close'' = Some col \<Longrightarrow> \<exists>v. calculate_volatility pad self = Inr v"
  by (simp add: calculate_volatility_def getitem_def Let_def)

lemma correlation_returns:
  "df self ''Adj Close'' = Some col \<Longrightarrow> \<exists>v. calculate_correlation pad self b = Inr v"
  using series_corr_returns by (simp add: calculate_correlation_def getitem_def Let_def)

lemma beta_returns:
  assumes "df self ''Adj Close'' = Some col"
    and "length (dropna (pct_change pad col)) = length b"
  shows "\<exists>v. calculate_beta pad self b = Inr v"
  using assms by (simp add: calculate_beta_def getitem_def Let_def np_cov_def values_of_def)

lemma beta_raises:
  assumes "df self ''Adj Close'' = Some col"
    and "length (dropna (pct_change pad col)) \<noteq> length b"
  shows "calculate_beta pad self b = Inl ValueError"
  using assms by (simp add: calculate_beta_def getitem_def Let_def np_cov_def values_of_def)

lemma alpha_returns:
  assumes "df self ''Adj Close'' = Some col"
    and "length (dropna (pct_change pad col)) = length b"
  shows "\<exists>v. calculate_alpha pad self b rf = Inr v"
proof -
  from beta_returns [OF assms] obtain v where "calculate_beta pad self b = Inr v" ..
  with assms(1) show ?thesis
    by (simp add: calculate_alpha_def getitem_def Let_def)
qed

lemma alpha_raises:
  assumes "df self ''Adj Close'' = Some col"
    and "length (dropna (pct_change pad col)) \<noteq> length b"
  shows "calculate_alpha pad self b rf = Inl ValueError"
  using assms(1) beta_raises [OF assms]
  by (simp add: calculate_alpha_def getitem_def Let_def)

lemma metrics_column_absent:
  "df self ''Adj Close'' = None \<Longrightarrow> calculate_metrics pad self b rf = Inl KeyError"
  by (simp add: calculate_metrics_def calculate_sharpe_ratio_def getitem_def)

section \<open>The aggregate call\<close>

text \<open>
  Claim C3, as the code has it. Whenever \<open>calculate_metrics\<close> returns a mapping, the
  mapping has exactly the seven keys in the fixed order and the value under each key is
  what the metric function gives when called alone on the same input. It returns exactly
  when the table has the \<open>Adj Close\<close> column and the benchmark has as many values as the
  derived return series; otherwise the first failing metric ends the call.
\<close>

theorem calculate_metrics_result:
  "(calculate_metrics pad self b rf = Inr m \<longrightarrow>
      map fst m = [''Sharpe Ratio'', ''Sortino Ratio'', ''Max Drawdown'', ''Volatility'',
                   ''Beta'', ''Alpha'', ''Correlation'']
      \<and> calculate_sharpe_ratio pad self rf = Inr (snd (m ! 0))
      \<and> calculate_sortino_ratio pad self rf = Inr (snd (m ! 1))
      \<and> calculate_max_drawdown pad self = Inr (snd (m ! 2))
      \<and> calculate_volatility pad self = Inr (snd (m ! 3))
      \<and> calculate_beta pad self b = Inr (snd (m ! 4))
      \<and> calculate_alpha pad self b rf = Inr (snd (m ! 5))
      \<and> calculate_correlation pad self b = Inr (snd (m ! 6)))
   \<and> ((\<exists>m'. calculate_metrics pad self b rf = Inr m') \<longleftrightarrow>
        (\<exists>col. df self ''Adj Close'' = Some col
            \<and> length (dropna (pct_change pad col)) = length b))"
proof (intro conjI impI)
  assume r: "calculate_metrics pad self b rf = Inr m"
  then show "map fst m = [''Sharpe Ratio'', ''Sortino Ratio'', ''Max Drawdown'', ''Volatility'',
                   ''Beta'', ''Alpha'', ''Correlation'']"
    by (auto simp: calculate_metrics_def split: sum.splits)
  from r show "calculate_sharpe_ratio pad self rf = Inr (snd (m ! 0))"
    by (auto simp: calculate_metrics_def split: sum.splits)
  from r show "calculate_sortino_ratio pad self rf = Inr (snd (m ! 1))"
    by (auto simp: calculate_metrics_def split: sum.splits)
  from r show "calculate_max_drawdown pad self = Inr (snd (m ! 2))"
    by (auto simp: calculate_metrics_def split: sum.splits)
  from r show "calculate_volatility pad self = Inr (snd (m ! 3))"
    by (auto simp: calculate_metrics_def split: sum.splits)
  from r show "calculate_beta pad self b = Inr (snd (m ! 4))"
    by (auto simp: calculate_metrics_def split: sum.splits)
  from r show "calculate_alpha pad self b rf = Inr (snd (m ! 5))"
    by (auto simp: calculate_metrics_def split: sum.splits)
  from r show "calculate_correlation pad self b = Inr (snd (m ! 6))"
    by (auto simp: calculate_metrics_def split: sum.splits)
next
  show "(\<exists>m'. calculate_metrics pad self b rf = Inr m') \<longleftrightarrow>
        (\<exists>col. df self ''Adj Close'' = Some col
            \<and> length (dropna (pct_change pad col)) = length b)"
  proof (cases "df self ''Adj Close''")
    case None
    then show ?thesis by (simp add: metrics_column_absent)
  next
    case (Some col)
    show ?thesis
    proof (cases "length (dropna (pct_change pad col)) = length b")
      case True
      from sharpe_returns [OF Some] obtain v1 where 1: "calculate_sharpe_ratio pad self rf = Inr v1" ..
      from sortino_returns [OF Some] obtain v2 where 2: "calculate_sortino_ratio pad self rf = Inr v2" ..
      from max_drawdown_returns [OF Some] obtain v3 where 3: "calculate_max_drawdown pad self = Inr v3" ..
      from volatility_returns [OF Some] obtain v4 where 4: "calculate_volatility pad self = Inr v4" ..
      from beta_returns [OF Some True] obtain v5 where 5: "calculate_beta pad self b = Inr v5" ..
      from alpha_returns [OF Some True] obtain v6 where 6: "calculate_alpha pad self b rf = Inr v6" ..
      from correlation_returns [OF Some] obtain v7 where 7: "calculate_correlation pad self b = Inr v7" ..
      from 1 2 3 4 5 6 7 have "\<exists>m'. calculate_metrics pad self b rf = Inr m'"
        by (simp add: calculate_metrics_def)
      with Some True show ?thesis by simp
    next
      case False
      from sharpe_returns [OF Some] obtain v1 where 1: "calculate_sharpe_ratio pad self rf = Inr v1" ..
      from sortino_returns [OF Some] obtain v2 where 2: "calculate_sortino_ratio pad self rf = Inr v2" ..
      from max_drawdown_returns [OF Some] obtain v3 where 3: "calculate_max_drawdown pad self = Inr v3" ..
      from volatility_returns [OF Some] obtain v4 where 4: "calculate_volatility pad self = Inr v4" ..
      from 1 2 3 4 beta_raises [OF Some False]
      have "calculate_metrics pad self b rf = Inl ValueError"
        by (simp add: calculate_metrics_def)
      with Some False show ?thesis by simp
    qed
  qed
qed

text \<open>
  The claim as stated (a mapping for every price table and benchmark) fails for a benchmark
  whose length differs from that of the return series: the covariance inside
  \<open>calculate_beta\<close> raises, and the aggregate call returns no mapping.
\<close>

theorem calculate_metrics_counterexample:
  "calculate_metrics True \<lparr>df = [''Adj Close'' \<mapsto> [(0, Fin 1), (1, Fin 2), (2, Fin 4)]]\<rparr>
      [(1, Fin 1)] (Fin (1 / 100)) = Inl ValueError
   \<and> calculate_metrics False \<lparr>df = [''Adj Close'' \<mapsto> [(0, Fin 1), (1, Fin 2), (2, Fin 4)]]\<rparr>
      [(1, Fin 1)] (Fin (1 / 100)) = Inl ValueError"
  by (simp add: metric_defs pandas_defs Let_def)

theorem calculate_metrics_result_witness:
  "calculate_metrics True \<lparr>df = [''Adj Close'' \<mapsto> [(0, Fin 1), (1, Fin 2), (2, Fin 4)]]\<rparr>
      [(1, Fin 1), (2, Fin 2)] (Fin 252)
    = Inr [(''Sharpe Ratio'', NaN), (''Sortino Ratio'', NaN), (''Max Drawdown'', Fin 0),
           (''Volatility'', Fin 0), (''Beta'', Fin 0), (''Alpha'', Fin 0), (''Correlation'', NaN)]
   \<and> calculate_sharpe_ratio True \<lparr>df = [''Adj Close'' \<mapsto> [(0, Fin 1), (1, Fin 2), (2, Fin 4)]]\<rparr>
        (Fin 252) = Inr NaN
   \<and> calculate_beta True \<lparr>df = [''Adj Close'' \<mapsto> [(0, Fin 1), (1, Fin 2), (2, Fin 4)]]\<rparr>
        [(1, Fin 1), (2, Fin 2)] = Inr (Fin 0)"
proof -
  have h: "calculate_metrics True \<lparr>df = [''Adj Close'' \<mapsto> [(0, Fin 1), (1, Fin 2), (2, Fin 4)]]\<rparr>
      [(1, Fin 1), (2, Fin 2)] (Fin 252)
    = Inr [(''Sharpe Ratio'', NaN), (''Sortino Ratio'', NaN), (''Max Drawdown'', Fin 0),
           (''Volatility'', Fin 0), (''Beta'', Fin 0), (''Alpha'', Fin 0), (''Correlation'', NaN)]"
    by (simp add: metric_defs pandas_defs Let_def)
  from calculate_metrics_result
    [of True "\<lparr>df = [''Adj Close'' \<mapsto> [(0, Fin 1), (1, Fin 2), (2, Fin 4)]]\<rparr>"
        "[(1, Fin 1), (2, Fin 2)]" "Fin 252"
        "[(''Sharpe Ratio'', NaN), (''Sortino Ratio'', NaN), (''Max Drawdown'', Fin 0),
           (''Volatility'', Fin 0), (''Beta'', Fin 0), (''Alpha'', Fin 0), (''Correlation'', NaN)]"]
    h
  show ?thesis by simp
qed

section \<open>The return series\<close>

lemma ffill_from_no_nan: "NaN \<notin> set xs \<Longrightarrow> ffill_from prev xs = xs"
  by (induction xs arbitrary: prev) auto

lemma zip_tl_butlast:
  "map2 f (tl xs) (butlast xs) = map (\<lambda>i. f (xs ! Suc i) (xs ! i)) [0..<length xs - 1]"
  by (rule nth_equalityI) (simp_all add: nth_tl nth_butlast)

lemma map2_shift:
  "map2 f xs (shift xs) = (case xs of [] \<Rightarrow> [] | y # ys \<Rightarrow>
      f y NaN # map (\<lambda>i. f (xs ! Suc i) (xs ! i)) [0..<length xs - 1])"
proof (cases xs)
  case Nil
  then show ?thesis by (simp add: shift_def)
next
  case (Cons y ys)
  have "map2 f (tl xs) (butlast xs) = map (\<lambda>i. f (xs ! Suc i) (xs ! i)) [0..<length xs - 1]"
    by (rule zip_tl_butlast)
  with Cons show ?thesis by (simp add: shift_def)
qed

lemma pct_change_no_nan:
  assumes "NaN \<notin> set (values_of s)"
  shows "pct_change pad s =
     (case s of [] \<Rightarrow> [] | p # ps \<Rightarrow>
        (fst p, NaN) # map (\<lambda>i. (fst (s ! Suc i), snd (s ! Suc i) / snd (s ! i) - Fin 1))
                         [0..<length s - 1])"
proof (cases s)
  case Nil
  then show ?thesis
    by (simp add: pct_change_def values_of_def index_of_def shift_def ffill_def)
next
  case (Cons p ps)
  have data: "(if pad then ffill (values_of s) else values_of s) = values_of s"
    using assms by (simp add: ffill_def ffill_from_no_nan)
  have "pct_change pad s =
      zip (index_of s) (map2 (\<lambda>x y. x / y - Fin 1) (values_of s) (shift (values_of s)))"
    unfolding pct_change_def data by (simp add: Let_def)
  also have "\<dots> = (fst p, NaN) #
      map (\<lambda>i. (fst (s ! Suc i), snd (s ! Suc i) / snd (s ! i) - Fin 1)) [0..<length s - 1]"
  proof -
    have nth_vals: "(snd p # map snd ps) ! i = snd ((p # ps) ! i)" if "i < length ps" for i
      using that by (cases i) simp_all
    show ?thesis
      unfolding map2_shift
      using Cons
      by (auto simp: values_of_def index_of_def nth_vals intro!: nth_equalityI)
  qed
  finally show ?thesis using Cons by simp
qed


lemma dropna_pct_change_defined:
  assumes "NaN \<notin> set (values_of s)"
    and "\<forall>i. Suc i < length s \<longrightarrow> snd (s ! Suc i) / snd (s ! i) \<noteq> NaN"
  shows "dropna (pct_change pad s) =
     map (\<lambda>i. (fst (s ! Suc i), snd (s ! Suc i) / snd (s ! i) - Fin 1)) [0..<length s - 1]"
proof (cases s)
  case Nil
  then show ?thesis
    by (simp add: dropna_def pct_change_def values_of_def index_of_def shift_def ffill_def)
next
  case (Cons p ps)
  have keep: "filter (\<lambda>(d, x). x \<noteq> NaN)
        (map (\<lambda>i. (fst (s ! Suc i), snd (s ! Suc i) / snd (s ! i) - Fin 1)) [0..<length s - 1])
      = map (\<lambda>i. (fst (s ! Suc i), snd (s ! Suc i) / snd (s ! i) - Fin 1)) [0..<length s - 1]"
    using assms(2) by (intro filter_True) auto
  show ?thesis
    unfolding pct_change_no_nan [OF assms(1)] dropna_def
    using Cons keep by simp
qed

text \<open>
  Claim C1, as the code has it. For a price series with \<open>N \<ge> 2\<close> rows in which no price
  is missing and no ratio \<open>price[i] / price[i-1]\<close> is undefined, \<open>get_returns\<close> produces
  \<open>N - 1\<close> returns; the \<open>i\<close>-th is \<open>price[i+1] / price[i] - 1\<close> and carries the date of row
  \<open>i + 1\<close> (the first date is dropped).
\<close>

theorem get_returns_defined:
  assumes "t ''Adj Close'' = Some col"
    and "2 \<le> length col"
    and "\<forall>i < length col. snd (col ! i) \<noteq> NaN"
    and "\<forall>i. Suc i < length col \<longrightarrow> snd (col ! Suc i) / snd (col ! i) \<noteq> NaN"
  shows "\<exists>rs. get_returns pad loader t = Inr rs
           \<and> length rs = length col - 1
           \<and> (\<forall>i < length rs.
                 snd (rs ! i) = snd (col ! Suc i) / snd (col ! i) - Fin 1
               \<and> fst (rs ! i) = fst (col ! Suc i))"
proof -
  have "NaN \<notin> set (values_of col)"
    using assms(3) by (fastforce simp: values_of_def in_set_conv_nth)
  from dropna_pct_change_defined [OF this assms(4)] assms(1)
  show ?thesis
    by (simp add: get_returns_def getitem_def)
qed

theorem get_returns_defined_witness:
  "[''Adj Close'' \<mapsto> [(0, Fin 100), (1, Fin 110), (2, Fin 121)]] ''Adj Close''
      = Some [(0, Fin 100), (1, Fin 110), (2, Fin 121)]
   \<and> get_returns True \<lparr>ticker = ''T'', start_date = ''a'', end_date = ''b''\<rparr>
        [''Adj Close'' \<mapsto> [(0, Fin 100), (1, Fin 110), (2, Fin 121)]]
      = Inr [(1, Fin (1 / 10)), (2, Fin (1 / 10))]"
proof -
  have h3: "\<forall>i < length [(0::date, Fin 100), (1, Fin 110), (2, Fin 121)].
      snd ([(0::date, Fin 100), (1, Fin 110), (2, Fin 121)] ! i) \<noteq> NaN"
    by (simp add: less_Suc_eq)
  have h4: "\<forall>i. Suc i < length [(0::date, Fin 100), (1, Fin 110), (2, Fin 121)] \<longrightarrow>
      snd ([(0::date, Fin 100), (1, Fin 110), (2, Fin 121)] ! Suc i)
        / snd ([(0::date, Fin 100), (1, Fin 110), (2, Fin 121)] ! i) \<noteq> NaN"
    by (simp add: less_Suc_eq)
  from get_returns_defined
    [of "[''Adj Close'' \<mapsto> [(0, Fin 100), (1, Fin 110), (2, Fin 121)]]"
        "[(0, Fin 100), (1, Fin 110), (2, Fin 121)]" True
        "\<lparr>ticker = ''T'', start_date = ''a'', end_date = ''b''\<rparr>", OF _ _ h3 h4]
  obtain rs where rs: "get_returns True \<lparr>ticker = ''T'', start_date = ''a'', end_date = ''b''\<rparr>
        [''Adj Close'' \<mapsto> [(0, Fin 100), (1, Fin 110), (2, Fin 121)]] = Inr rs"
    and len: "length rs = 2"
    and el: "\<forall>i < length rs.
        snd (rs ! i) = snd ([(0::date, Fin 100), (1, Fin 110), (2, Fin 121)] ! Suc i)
                       / snd ([(0::date, Fin 100), (1, Fin 110), (2, Fin 121)] ! i) - Fin 1
      \<and> fst (rs ! i) = fst ([(0::date, Fin 100), (1, Fin 110), (2, Fin 121)] ! Suc i)"
    by auto
  from len obtain a b where ab: "rs = [a, b]"
    by (cases rs; cases "tl rs") auto
  from el ab have "a = (1, Fin (1 / 10))" "b = (2, Fin (1 / 10))"
    by (auto simp: less_Suc_eq prod_eq_iff)
  with rs ab show ?thesis by simp
qed

text \<open>
  Without that condition the claim fails: \<open>dropna\<close> removes every undefined return, not
  only the first. A series of three rows whose first price is missing has one return,
  not two, under either fill method.
\<close>

theorem get_returns_counterexample:
  "get_returns True \<lparr>ticker = ''T'', start_date = ''a'', end_date = ''b''\<rparr>
      [''Adj Close'' \<mapsto> [(0, NaN), (1, Fin 1), (2, Fin 2)]] = Inr [(2, Fin 1)]
   \<and> get_returns False \<lparr>ticker = ''T'', start_date = ''a'', end_date = ''b''\<rparr>
      [''Adj Close'' \<mapsto> [(0, NaN), (1, Fin 1), (2, Fin 2)]] = Inr [(2, Fin 1)]
   \<and> length [(2::date, Fin 1)] \<noteq> length [(0::date, NaN), (1, Fin 1), (2, Fin 2)] - 1"
  by (simp add: get_returns_def getitem_def dropna_def pct_change_def values_of_def
      index_of_def shift_def ffill_def)

section \<open>Alignment of the benchmark\<close>

lemma values_of_map_values: "values_of (map_values f s) = map f (values_of s)"
  by (simp add: values_of_def map_values_def comp_def case_prod_unfold)

lemma series_mean_values: "values_of s = values_of s' \<Longrightarrow> series_mean s = series_mean s'"
  by (simp add: series_mean_def)

lemma series_var_values: "values_of s = values_of s' \<Longrightarrow> series_var s = series_var s'"
  by (simp add: series_var_def)

lemma beta_ignores_dates:
  "values_of b' = values_of b \<Longrightarrow> calculate_beta pad self b' = calculate_beta pad self b"
  by (simp add: calculate_beta_def Let_def series_var_values [of b' b] cong: sum.case_cong)

lemma alpha_ignores_dates:
  assumes "values_of b' = values_of b"
  shows "calculate_alpha pad self b' rf = calculate_alpha pad self b rf"
proof -
  have "series_mean (map_values f b') = series_mean (map_values f b)" for f
    using assms by (intro series_mean_values) (simp add: values_of_map_values)
  then show ?thesis
    by (simp add: calculate_alpha_def Let_def beta_ignores_dates [OF assms] cong: sum.case_cong)
qed

text \<open>
  Claim C8, as the code has it. The dates of the benchmark are never checked: beta and
  alpha read the benchmark by position only, so two benchmarks with the same values give
  the same result, and a benchmark with as many values as the return series is always
  accepted. Correlation accepts every benchmark (it silently keeps the dates both series
  have). A benchmark of another length, however, is rejected by beta and alpha: stacking
  the two arrays inside \<open>np.cov\<close> raises \<open>ValueError\<close>.
\<close>

theorem benchmark_alignment:
  assumes "df self ''Adj Close'' = Some col"
  shows "(length b = length (dropna (pct_change pad col)) \<longrightarrow>
            (\<exists>v. calculate_beta pad self b = Inr v)
          \<and> (\<exists>v. calculate_alpha pad self b rf = Inr v))
       \<and> (length b \<noteq> length (dropna (pct_change pad col)) \<longrightarrow>
            calculate_beta pad self b = Inl ValueError
          \<and> calculate_alpha pad self b rf = Inl ValueError)
       \<and> (values_of b' = values_of b \<longrightarrow>
            calculate_beta pad self b' = calculate_beta pad self b
          \<and> calculate_alpha pad self b' rf = calculate_alpha pad self b rf)
       \<and> (\<exists>v. calculate_correlation pad self b = Inr v)"
proof (intro conjI impI)
  assume eq: "length b = length (dropna (pct_change pad col))"
  then have eq': "length (dropna (pct_change pad col)) = length b" by simp
  show "\<exists>v. calculate_beta pad self b = Inr v"
    by (rule beta_returns [OF assms eq'])
  show "\<exists>v. calculate_alpha pad self b rf = Inr v"
    by (rule alpha_returns [OF assms eq'])
next
  assume "length b \<noteq> length (dropna (pct_change pad col))"
  then have ne: "length (dropna (pct_change pad col)) \<noteq> length b" by simp
  show "calculate_beta pad self b = Inl ValueError"
    by (rule beta_raises [OF assms ne])
  show "calculate_alpha pad self b rf = Inl ValueError"
    by (rule alpha_raises [OF assms ne])
next
  assume v: "values_of b' = values_of b"
  show "calculate_beta pad self b' = calculate_beta pad self b"
    by (rule beta_ignores_dates [OF v])
  show "calculate_alpha pad self b' rf = calculate_alpha pad self b rf"
    by (rule alpha_ignores_dates [OF v])
next
  show "\<exists>v. calculate_correlation pad self b = Inr v"
    by (rule correlation_returns [OF assms])
qed

theorem benchmark_alignment_witness:
  "df \<lparr>df = [''Adj Close'' \<mapsto> [(0, Fin 1), (1, Fin 2), (2, Fin 4)]]\<rparr> ''Adj Close''
      = Some [(0, Fin 1), (1, Fin 2), (2, Fin 4)]
   \<and> length [(7::date, Fin 1), (9, Fin 2)]
       = length (dropna (pct_change True [(0, Fin 1), (1, Fin 2), (2, Fin 4)]))
   \<and> values_of [(7, Fin 1), (9, Fin 2)] = values_of [(1, Fin 1), (2, Fin 2)]
   \<and> calculate_beta True \<lparr>df = [''Adj Close'' \<mapsto> [(0, Fin 1), (1, Fin 2), (2, Fin 4)]]\<rparr>
         [(7, Fin 1), (9, Fin 2)]
       = calculate_beta True \<lparr>df = [''Adj Close'' \<mapsto> [(0, Fin 1), (1, Fin 2), (2, Fin 4)]]\<rparr>
         [(1, Fin 1), (2, Fin 2)]
   \<and> length [(1::date, Fin 1)]
       \<noteq> length (dropna (pct_change True [(0, Fin 1), (1, Fin 2), (2, Fin 4)]))
   \<and> calculate_alpha True \<lparr>df = [''Adj Close'' \<mapsto> [(0, Fin 1), (1, Fin 2), (2, Fin 4)]]\<rparr>
         [(1, Fin 1)] (Fin 0) = Inl ValueError"
proof -
  have h: "df \<lparr>df = [''Adj Close'' \<mapsto> [(0, Fin 1), (1, Fin 2), (2, Fin 4)]]\<rparr> ''Adj Close''
      = Some [(0, Fin 1), (1, Fin 2), (2, Fin 4)]"
    by simp
  have len: "length (dropna (pct_change True [(0, Fin 1), (1, Fin 2), (2, Fin 4)])) = 2"
    by (simp add: pandas_defs)
  have vals: "values_of [(7, Fin 1), (9, Fin 2)] = values_of [(1, Fin 1), (2, Fin 2)]"
    by (simp add: values_of_def)
  from benchmark_alignment [OF h, of "[(1, Fin 1), (2, Fin 2)]" True "Fin 0" "[(7, Fin 1), (9, Fin 2)]"]
    vals
  have 1: "calculate_beta True \<lparr>df = [''Adj Close'' \<mapsto> [(0, Fin 1), (1, Fin 2), (2, Fin 4)]]\<rparr>
         [(7, Fin 1), (9, Fin 2)]
       = calculate_beta True \<lparr>df = [''Adj Close'' \<mapsto> [(0, Fin 1), (1, Fin 2), (2, Fin 4)]]\<rparr>
         [(1, Fin 1), (2, Fin 2)]"
    by blast
  from benchmark_alignment [OF h, of "[(1, Fin 1)]" True "Fin 0" "[(1, Fin 1)]"] len
  have 2: "calculate_alpha True \<lparr>df = [''Adj Close'' \<mapsto> [(0, Fin 1), (1, Fin 2), (2, Fin 4)]]\<rparr>
         [(1, Fin 1)] (Fin 0) = Inl ValueError"
    by simp
  from h len vals 1 2 show ?thesis by simp
qed

text \<open>
  The claim as stated (no misalignment is rejected) fails for a length mismatch: two
  returns against a benchmark of one value.
\<close>

theorem benchmark_alignment_counterexample:
  "calculate_beta True \<lparr>df = [''Adj Close'' \<mapsto> [(0, Fin 1), (1, Fin 2), (2, Fin 4)]]\<rparr>
      [(1, Fin 1)] = Inl ValueError
   \<and> calculate_beta False \<lparr>df = [''Adj Close'' \<mapsto> [(0, Fin 1), (1, Fin 2), (2, Fin 4)]]\<rparr>
      [(1, Fin 1)] = Inl ValueError
   \<and> calculate_alpha True \<lparr>df = [''Adj Close'' \<mapsto> [(0, Fin 1), (1, Fin 2), (2, Fin 4)]]\<rparr>
      [(1, Fin 1)] (Fin (1 / 100)) = Inl ValueError
   \<and> calculate_alpha False \<lparr>df = [''Adj Close'' \<mapsto> [(0, Fin 1), (1, Fin 2), (2, Fin 4)]]\<rparr>
      [(1, Fin 1)] (Fin (1 / 100)) = Inl ValueError"
  by (simp add: metric_defs pandas_defs Let_def)

section \<open>Zero denominators\<close>





section \<open>Variance and covariance of finite values\<close>
















section \<open>The correlation\<close>




















end
